theory Spec2Isabelle
  imports Main "HOL-Library.Word"
begin

section \<open>Packets and frames\<close>

text \<open>
  The client (\<^verbatim>\<open>pycozmo/client.py\<close>) handles packets through a small interface:
  the class of a packet, its \<^verbatim>\<open>seq\<close> and \<^verbatim>\<open>ack\<close> attributes and
  \<^verbatim>\<open>is_oob()\<close>. The packet classes are the ones \<^verbatim>\<open>client.py\<close> imports, plus
  one constructor for the packets of type \<^verbatim>\<open>PacketType.EVENT\<close> it mentions.
  Python integers are \<open>int\<close>; byte strings are lists of 8-bit words.
\<close>

type_synonym byte = "8 word"

datatype packet_body =
    Connect
  | Disconnect
  | Ping int int int
  | NextFrame
  | DisplayImage "byte list"
  | FirmwareSignature string
  | UnknownCommand nat "byte list"
  | UnknownEvent nat "byte list"

record packet =
  body :: packet_body
  seq :: int
  ack :: int

text \<open>
  A packet built by the client for sending (\<^verbatim>\<open>Ping(0, 1, 0)\<close>, \<^verbatim>\<open>Disconnect()\<close>, ...)
  has no sequence of its own: the send loop puts the sequence in the frame. Its \<open>seq\<close>
  and \<open>ack\<close> are 0 here, the value the spec reserves for "no sequence"; \<^verbatim>\<open>client.py\<close>
  never reads them on an outbound packet.
\<close>

definition new_packet :: "packet_body \<Rightarrow> packet" where
  "new_packet b = \<lparr>body = b, seq = 0, ack = 0\<rparr>"

text \<open>\<^verbatim>\<open>isinstance(pkt, Ping)\<close>\<close>

fun isinstance_Ping :: "packet \<Rightarrow> bool" where
  "isinstance_Ping p = (case body p of Ping _ _ _ \<Rightarrow> True | _ \<Rightarrow> False)"

text \<open>
  Modelled from the spec: \<^verbatim>\<open>Packet.is_oob\<close> (\<^verbatim>\<open>protocol_base.py\<close> is not among the
  sources). "Each variant declares is_out_of_band: bool (true for packets such as
  keepalive pings and asynchronous events that must bypass ordering)"; it "is a pure
  function of the variant".
\<close>

fun is_oob :: "packet \<Rightarrow> bool" where
  "is_oob p = (case body p of Ping _ _ _ \<Rightarrow> True | UnknownEvent _ _ \<Rightarrow> True | _ \<Rightarrow> False)"

datatype frame_type = RESET | ENGINE | PING | DISCONNECT

text \<open>\<^verbatim>\<open>Frame(type, first_seq, seq, ack, pkts)\<close>\<close>

datatype frame = Frame (ftype: frame_type) (first_seq: int) (fseq: int) (fack: int) (pkts: "packet list")

section \<open>Windows\<close>

text \<open>
  Modelled from the spec: the classes \<^verbatim>\<open>ReceiveWindow\<close> and \<^verbatim>\<open>SendWindow\<close>
  (\<^verbatim>\<open>window.py\<close> is not among the sources). The spec's data model gives both windows
  an expected sequence, a capacity, the width of the sequence numbers and a buffer that
  maps a sequence to a packet; the send side also needs the counter from which
  \<^verbatim>\<open>put\<close> "assigns the next sequence number".
\<close>

record window =
  expected_seq :: int
  capacity :: nat
  seq_bits :: nat
  buffer :: "int \<rightharpoonup> packet"

record send_window = window +
  next_seq :: int

definition modulus :: "'a window_scheme \<Rightarrow> int" where
  "modulus w = 2 ^ seq_bits w"

text \<open>
  Modelled from the spec: "a seq is behind \<^verbatim>\<open>expected_seq\<close> if the forward distance
  modulo \<^verbatim>\<open>2^seq_bits\<close> exceeds half the sequence space".
\<close>

definition forward_distance :: "'a window_scheme \<Rightarrow> int \<Rightarrow> int" where
  "forward_distance w s = (s - expected_seq w) mod modulus w"

definition is_behind :: "'a window_scheme \<Rightarrow> int \<Rightarrow> bool" where
  "is_behind w s = (forward_distance w s > modulus w div 2)"

subsection \<open>Receive window\<close>

text \<open>
  Modelled from the spec: \<^verbatim>\<open>ReceiveWindow.is_out_of_order\<close>: "true if seq is behind
  \<^verbatim>\<open>expected_seq\<close> (already delivered or too old)"; and the window "only accepts a seq
  within \<^verbatim>\<open>[expected_seq, expected_seq + capacity)\<close> modulo wraparound; rejects
  duplicates and out-of-order-too-far entries without mutating state".
\<close>

definition rw_is_out_of_order :: "window \<Rightarrow> int \<Rightarrow> bool" where
  "rw_is_out_of_order w s = (is_behind w s \<or> forward_distance w s \<ge> int (capacity w))"

text \<open>Modelled from the spec: \<^verbatim>\<open>ReceiveWindow.exists\<close>: "true if seq already buffered".\<close>

definition rw_exists :: "window \<Rightarrow> int \<Rightarrow> bool" where
  "rw_exists w s = (buffer w s \<noteq> None)"

text \<open>Modelled from the spec: \<^verbatim>\<open>ReceiveWindow.put\<close>: "buffers it; caller must have
  already checked the above two".\<close>

definition rw_put :: "window \<Rightarrow> int \<Rightarrow> packet \<Rightarrow> window" where
  "rw_put w s p = w\<lparr>buffer := (buffer w)(s \<mapsto> p)\<rparr>"

text \<open>Modelled from the spec: \<^verbatim>\<open>ReceiveWindow.is_expected\<close>: "true iff seq ==
  expected_seq".\<close>

definition rw_is_expected :: "window \<Rightarrow> int \<Rightarrow> bool" where
  "rw_is_expected w s = (s = expected_seq w)"

text \<open>
  Modelled from the spec: \<^verbatim>\<open>ReceiveWindow.get\<close>: "if buffer contains
  \<^verbatim>\<open>expected_seq\<close>, removes and returns that packet and increments \<^verbatim>\<open>expected_seq\<close>
  (mod \<^verbatim>\<open>2^seq_bits\<close>); otherwise returns nothing".
\<close>

definition rw_get :: "window \<Rightarrow> packet option \<times> window" where
  "rw_get w =
     (case buffer w (expected_seq w) of
        None \<Rightarrow> (None, w)
      | Some p \<Rightarrow>
          (Some p, w\<lparr>expected_seq := (expected_seq w + 1) mod modulus w,
                      buffer := (buffer w)(expected_seq w := None)\<rparr>))"

text \<open>Modelled from the spec: \<^verbatim>\<open>ReceiveWindow.reset\<close>: "clears buffer, sets
  \<^verbatim>\<open>expected_seq\<close> to the protocol's initial value (1)".\<close>

definition rw_reset :: "window \<Rightarrow> window" where
  "rw_reset w = w\<lparr>expected_seq := 1, buffer := Map.empty\<rparr>"

subsection \<open>Send window\<close>

text \<open>
  Modelled from the spec: \<^verbatim>\<open>SendWindow.put\<close>: "assigns the next sequence number
  (auto-incrementing, wrapping at \<^verbatim>\<open>2^seq_bits\<close>), buffers \<^verbatim>\<open>(seq, pkt)\<close>, returns the
  assigned seq"; backpressure is the caller's business, so a full window does not make
  \<^verbatim>\<open>put\<close> fail.
\<close>

definition sw_put :: "send_window \<Rightarrow> packet \<Rightarrow> int \<times> send_window" where
  "sw_put w p =
     (next_seq w, w\<lparr>buffer := (buffer w)(next_seq w \<mapsto> p),
                     next_seq := (next_seq w + 1) mod modulus w\<rparr>)"

text \<open>Modelled from the spec: \<^verbatim>\<open>SendWindow.is_out_of_order\<close>: "true if the acked seq
  is behind \<^verbatim>\<open>expected_seq\<close> (stale ack, ignore)".\<close>

definition sw_is_out_of_order :: "send_window \<Rightarrow> int \<Rightarrow> bool" where
  "sw_is_out_of_order w s = is_behind w s"

text \<open>Modelled from the spec: \<^verbatim>\<open>SendWindow.pop\<close>: removes the entry at
  \<^verbatim>\<open>expected_seq\<close>, "advancing \<^verbatim>\<open>expected_seq\<close> past" it (modulo
  \<^verbatim>\<open>2^seq_bits\<close>).\<close>

definition sw_pop :: "send_window \<Rightarrow> send_window" where
  "sw_pop w = w\<lparr>expected_seq := (expected_seq w + 1) mod modulus w,
                 buffer := (buffer w)(expected_seq w := None)\<rparr>"

text \<open>Modelled from the spec: \<^verbatim>\<open>SendWindow.reset\<close>: "clears buffer,
  \<^verbatim>\<open>expected_seq\<close> = 1"; the next sequence to assign is then the lowest
  unacknowledged one.\<close>

definition sw_reset :: "send_window \<Rightarrow> send_window" where
  "sw_reset w = w\<lparr>expected_seq := 1, buffer := Map.empty, next_seq := 1\<rparr>"

section \<open>The receive loop\<close>

type_synonym address = "string \<times> nat"

record receive_thread =
  sender_address :: "address option"
  rt_window :: window
  rt_queue :: "packet list"

text \<open>\<^verbatim>\<open>ReceiveThread.deliver\<close>: \<^verbatim>\<open>self.queue.put(pkt)\<close>\<close>

definition deliver :: "receive_thread \<Rightarrow> packet \<Rightarrow> receive_thread" where
  "deliver rt pkt = rt\<lparr>rt_queue := rt_queue rt @ [pkt]\<rparr>"

text \<open>
  \<^verbatim>\<open>ReceiveThread.deliver_sequence\<close>: \<^verbatim>\<open>while True: pkt = self.window.get(); if pkt
  is None: break; self.deliver(pkt)\<close>. Every round removes one key from the buffer, and
  from the second round on the key is below \<open>2 ^ seq_bits\<close>, so the loop ends.
\<close>

function deliver_sequence :: "receive_thread \<Rightarrow> receive_thread" where
  "deliver_sequence rt =
     (case rw_get (rt_window rt) of
        (None, _) \<Rightarrow> rt
      | (Some pkt, w') \<Rightarrow> deliver_sequence (deliver (rt\<lparr>rt_window := w'\<rparr>) pkt))"
  by pat_completeness auto

definition drain_measure :: "receive_thread \<Rightarrow> nat" where
  "drain_measure rt =
     card (dom (buffer (rt_window rt)) \<inter> {0 ..< modulus (rt_window rt)})
     + (if 0 \<le> expected_seq (rt_window rt) \<and> expected_seq (rt_window rt) < modulus (rt_window rt)
        then 0 else 1)"

termination deliver_sequence
proof (relation "measure drain_measure", goal_cases)
  case 1
  show ?case by simp
next
  case (2 rt got w' pkt)
  then have get: "rw_get (rt_window rt) = (Some pkt, w')" by simp
  let ?w = "rt_window rt"
  let ?e = "expected_seq ?w"
  let ?M = "modulus ?w"
  have M: "0 < ?M" by (simp add: modulus_def)
  from get have inb: "buffer ?w ?e = Some pkt"
    and w': "w' = ?w\<lparr>expected_seq := (?e + 1) mod ?M, buffer := (buffer ?w)(?e := None)\<rparr>"
    by (auto simp: rw_get_def split: option.splits)
  have e': "0 \<le> (?e + 1) mod ?M \<and> (?e + 1) mod ?M < ?M" using M by simp
  have fin: "finite (dom (buffer ?w) \<inter> {0 ..< ?M})" by simp
  have dom': "dom ((buffer ?w)(?e := None)) \<inter> {0 ..< ?M} = (dom (buffer ?w) \<inter> {0 ..< ?M}) - {?e}"
    by auto
  have "drain_measure (deliver (rt\<lparr>rt_window := w'\<rparr>) pkt) < drain_measure rt"
  proof (cases "0 \<le> ?e \<and> ?e < ?M")
    case True
    then have "?e \<in> dom (buffer ?w) \<inter> {0 ..< ?M}" using inb by auto
    then have "card ((dom (buffer ?w) \<inter> {0 ..< ?M}) - {?e}) < card (dom (buffer ?w) \<inter> {0 ..< ?M})"
      using fin by (meson card_Diff1_less)
    then show ?thesis using True e' dom'
      by (simp add: drain_measure_def deliver_def w' modulus_def)
  next
    case False
    then have "?e \<notin> dom (buffer ?w) \<inter> {0 ..< ?M}" by auto
    then have "(dom (buffer ?w) \<inter> {0 ..< ?M}) - {?e} = dom (buffer ?w) \<inter> {0 ..< ?M}" by blast
    then show ?thesis using False e' dom'
      by (simp add: drain_measure_def deliver_def w' modulus_def)
  qed
  then show ?case by simp
qed

declare deliver_sequence.simps [simp del]

text \<open>\<^verbatim>\<open>ReceiveThread.handle_pkt\<close>\<close>

definition handle_pkt :: "receive_thread \<Rightarrow> packet \<Rightarrow> receive_thread" where
  "handle_pkt rt pkt =
     (if is_oob pkt then deliver rt pkt
      else if rw_is_out_of_order (rt_window rt) (seq pkt) then rt
      else if rw_exists (rt_window rt) (seq pkt) then rt
      else
        let rt1 = rt\<lparr>rt_window := rw_put (rt_window rt) (seq pkt) pkt\<rparr>
        in if rw_is_expected (rt_window rt1) (seq pkt) then deliver_sequence rt1 else rt1)"

text \<open>\<^verbatim>\<open>ReceiveThread.handle_frame\<close>: \<^verbatim>\<open>for pkt in frame.pkts: self.handle_pkt(pkt)\<close>\<close>

definition handle_frame :: "receive_thread \<Rightarrow> frame \<Rightarrow> receive_thread" where
  "handle_frame rt f = foldl handle_pkt rt (pkts f)"

text \<open>\<^verbatim>\<open>ReceiveThread.reset\<close>: \<^verbatim>\<open>self.window.reset()\<close>\<close>

definition rt_reset :: "receive_thread \<Rightarrow> receive_thread" where
  "rt_reset rt = rt\<lparr>rt_window := rw_reset (rt_window rt)\<rparr>"

subsection \<open>One round of \<^verbatim>\<open>ReceiveThread.run\<close>\<close>

datatype error = MalformedFrame | JSONDecodeError

text \<open>
  A call either returns or raises. An exception does not undo what the call did before
  it, so a raise keeps the state reached at that point.
\<close>

datatype 'a outcome = Returned 'a | Raised error 'a

fun final :: "'a outcome \<Rightarrow> 'a" where
  "final (Returned x) = x"
| "final (Raised e x) = x"

text \<open>
  What one round of the loop meets: \<^verbatim>\<open>select\<close> times out, \<^verbatim>\<open>recvfrom\<close> raises
  \<^verbatim>\<open>InterruptedError\<close>, or a datagram arrives from an address.
\<close>

datatype recv_event = SelectTimeout | RecvInterrupted | Datagram "byte list" address

text \<open>
  The body of the \<^verbatim>\<open>while not self.stop_flag\<close> loop of \<^verbatim>\<open>ReceiveThread.run\<close>.
  \<^verbatim>\<open>Frame.from_bytes\<close> is not among the sources and is the parameter \<open>from_bytes\<close>;
  the call is not inside any \<^verbatim>\<open>try\<close>, so what it raises leaves the loop.
\<close>

definition rt_run_step ::
  "(byte list \<Rightarrow> error + frame) \<Rightarrow> receive_thread \<Rightarrow> recv_event \<Rightarrow> receive_thread outcome" where
  "rt_run_step from_bytes rt ev =
     (case ev of
        SelectTimeout \<Rightarrow> Returned rt
      | RecvInterrupted \<Rightarrow> Returned rt
      | Datagram raw_frame addr \<Rightarrow>
          if sender_address rt \<noteq> None \<and> sender_address rt \<noteq> Some addr then Returned rt
          else (case from_bytes raw_frame of
                  Inl e \<Rightarrow> Raised e rt
                | Inr frame \<Rightarrow> Returned (handle_frame rt frame)))"

text \<open>
  Modelled from the spec: \<^verbatim>\<open>Frame.from_bytes\<close> (\<^verbatim>\<open>frame.py\<close> is not among the
  sources): \<^verbatim>\<open>decode(bytes) -> Frame\<close> "fails with a \<^verbatim>\<open>MalformedFrame\<close> error when
  the buffer is shorter than the fixed header or contains a packet whose declared length
  runs past the buffer end". The header holds the type and three \<^verbatim>\<open>uint16\<close> fields;
  the spec does not give the layout of what follows, which is left to \<open>decode_rest\<close>.
\<close>

definition header_size :: nat where
  "header_size = 1 + 2 + 2 + 2"

definition Frame_from_bytes :: "(byte list \<Rightarrow> error + frame) \<Rightarrow> byte list \<Rightarrow> error + frame" where
  "Frame_from_bytes decode_rest raw =
     (if length raw < header_size then Inl MalformedFrame else decode_rest raw)"

section \<open>The send loop\<close>

text \<open>
  A \<^verbatim>\<open>datetime\<close> is a count of microseconds. The socket is the list of the datagrams
  handed to \<^verbatim>\<open>sock.sendto\<close>, each kept as the frame whose \<^verbatim>\<open>to_bytes()\<close> it is
  (\<^verbatim>\<open>frame.py\<close> is not among the sources). \<^verbatim>\<open>sendto\<close> returns or raises
  \<^verbatim>\<open>InterruptedError\<close>.
\<close>

type_synonym timestamp = int

type_synonym socket = "frame list"

datatype sendto_result = Sent | Interrupted

record send_thread =
  st_window :: send_window
  st_queue :: "packet list"
  last_ack :: int
  last_send_timestamp :: "timestamp option"

text \<open>
  The body of the loop of \<^verbatim>\<open>SendThread.run\<close>: take an item from the queue (an empty
  queue is the \<^verbatim>\<open>Empty\<close> timeout), construct the frame, send it, record the time.
\<close>

definition construct_frame :: "send_thread \<Rightarrow> packet \<Rightarrow> frame \<times> send_thread" where
  "construct_frame st pkt =
     (if isinstance_Ping pkt then (Frame PING 0 0 (last_ack st) [pkt], st)
      else
        let (s, w') = sw_put (st_window st) pkt
        in (Frame ENGINE s s (last_ack st) [pkt], st\<lparr>st_window := w'\<rparr>))"

definition st_run_step ::
  "send_thread \<Rightarrow> socket \<Rightarrow> sendto_result \<Rightarrow> timestamp \<Rightarrow> send_thread \<times> socket" where
  "st_run_step st sock r now =
     (case st_queue st of
        [] \<Rightarrow> (st, sock)
      | pkt # rest \<Rightarrow>
          let (frame, st1) = construct_frame (st\<lparr>st_queue := rest\<rparr>) pkt
          in (case r of
                Interrupted \<Rightarrow> (st1, sock @ [frame])
              | Sent \<Rightarrow> (st1\<lparr>last_send_timestamp := Some now\<rparr>, sock @ [frame])))"

text \<open>\<^verbatim>\<open>SendThread.send\<close>: \<^verbatim>\<open>self.queue.put(data)\<close>\<close>

definition st_send :: "send_thread \<Rightarrow> packet \<Rightarrow> send_thread" where
  "st_send st data = st\<lparr>st_queue := st_queue st @ [data]\<rparr>"

text \<open>
  \<^verbatim>\<open>SendThread.ack\<close>: \<^verbatim>\<open>if self.window.is_out_of_order(seq): return\<close>, then
  \<^verbatim>\<open>while self.window.expected_seq <= seq: self.window.pop()\<close>. The guard of the loop
  is Python's comparison of two integers. The loop need not end, so not returning is
  the value \<open>None\<close>.
\<close>

partial_function (option) ack_loop :: "send_window \<Rightarrow> int \<Rightarrow> send_window option" where
  "ack_loop w s = (if expected_seq w \<le> s then ack_loop (sw_pop w) s else Some w)"

definition st_ack :: "send_thread \<Rightarrow> int \<Rightarrow> send_thread option" where
  "st_ack st s =
     (if sw_is_out_of_order (st_window st) s then Some st
      else map_option (\<lambda>w. st\<lparr>st_window := w\<rparr>) (ack_loop (st_window st) s))"

text \<open>\<^verbatim>\<open>SendThread.set_last_ack\<close>\<close>

definition set_last_ack :: "send_thread \<Rightarrow> int \<Rightarrow> send_thread" where
  "set_last_ack st a = st\<lparr>last_ack := a\<rparr>"

text \<open>\<^verbatim>\<open>SendThread.reset\<close>\<close>

definition st_reset :: "send_thread \<Rightarrow> send_thread" where
  "st_reset st = st\<lparr>st_window := sw_reset (st_window st), last_ack := 1,
                    last_send_timestamp := None\<rparr>"

section \<open>The client\<close>

datatype client_state = IDLE | CONNECTING | CONNECTED

text \<open>
  The calls of \<^verbatim>\<open>self.dispatch\<close>: \<^verbatim>\<open>dispatch(EvtRobotFound, self)\<close>,
  \<^verbatim>\<open>dispatch(EvtRobotReady, self)\<close> and \<^verbatim>\<open>dispatch(pkt.__class__, self, pkt)\<close>,
  where \<^verbatim>\<open>pkt\<close> is \<^verbatim>\<open>None\<close> on a round without a packet.
\<close>

datatype dispatch_call = EvtRobotFound | EvtRobotReady | PacketEvt "packet option"

text \<open>
  The fields of \<^verbatim>\<open>Client\<close>. The two threads share the client's socket, so the socket
  is a field of the client only. \<open>clock\<close> is what \<^verbatim>\<open>datetime.now()\<close> returns, and
  \<open>dispatched\<close> lists the calls of \<^verbatim>\<open>self.dispatch\<close> made so far; neither is a field
  of the class. The type \<open>'j\<close> is the type of the values \<^verbatim>\<open>json.loads\<close> returns.
\<close>

record 'j client =
  robot_addr :: address
  robot_fw_sig :: "'j option"
  state :: client_state
  sock :: socket
  recv_thread :: receive_thread
  send_thread :: send_thread
  send_last :: timestamp
  clock :: timestamp
  dispatched :: "dispatch_call list"

text \<open>\<^verbatim>\<open>PING_INTERVAL = 0.05\<close>: \<^verbatim>\<open>timedelta(seconds=PING_INTERVAL)\<close> is 50000
  microseconds.\<close>

definition PING_INTERVAL :: int where
  "PING_INTERVAL = 50000"

text \<open>\<^verbatim>\<open>Client.connect\<close>; \<open>r\<close> is what \<^verbatim>\<open>self.sock.sendto\<close> does.\<close>

definition connect :: "'j client \<Rightarrow> sendto_result \<Rightarrow> 'j client" where
  "connect c r =
     (let c1 = c\<lparr>state := CONNECTING\<rparr>;
          c2 = c1\<lparr>send_thread := st_reset (send_thread c1)\<rparr>;
          frame = Frame RESET 1 1 0 [];
          c3 = c2\<lparr>sock := sock c2 @ [frame]\<rparr>
      in case r of Sent \<Rightarrow> c3 | Interrupted \<Rightarrow> c3)"

text \<open>\<^verbatim>\<open>Client.send\<close>\<close>

definition send :: "'j client \<Rightarrow> packet \<Rightarrow> 'j client" where
  "send c pkt = (let c1 = c\<lparr>send_last := clock c\<rparr>
                 in c1\<lparr>send_thread := st_send (send_thread c1) pkt\<rparr>)"

text \<open>\<^verbatim>\<open>Client.disconnect\<close>\<close>

definition disconnect :: "'j client \<Rightarrow> 'j client" where
  "disconnect c = (if state c \<noteq> CONNECTED then c else send c (new_packet Disconnect))"

text \<open>\<^verbatim>\<open>Client._send_ping\<close>\<close>

definition send_ping :: "'j client \<Rightarrow> 'j client" where
  "send_ping c = send c (new_packet (Ping 0 1 0))"

text \<open>\<^verbatim>\<open>Client._on_connect\<close>\<close>

definition on_connect :: "'j client \<Rightarrow> 'j client" where
  "on_connect c = c\<lparr>state := CONNECTED\<rparr>"

text \<open>\<^verbatim>\<open>Client._on_ping\<close>\<close>

definition on_ping :: "'j client \<Rightarrow> 'j client" where
  "on_ping c = c"

text \<open>
  Modelled from the spec: \<^verbatim>\<open>event.Dispatcher.dispatch\<close> (\<^verbatim>\<open>event.py\<close> is not among
  the sources): "\<^verbatim>\<open>dispatch(kind, *args)\<close> invokes, in registration order, all handlers
  subscribed to that kind". \<^verbatim>\<open>client.py\<close> subscribes no handler of its own to
  \<^verbatim>\<open>EvtRobotReady\<close> and \<^verbatim>\<open>EvtRobotFound\<close>; the handlers an application adds are not
  part of the client, and the call is recorded.
\<close>

definition dispatch_event :: "dispatch_call \<Rightarrow> 'j client \<Rightarrow> 'j client" where
  "dispatch_event ev c = c\<lparr>dispatched := dispatched c @ [ev]\<rparr>"

text \<open>\<^verbatim>\<open>Client._initialize_robot\<close>; \<^verbatim>\<open>time.sleep(1)\<close> moves the clock by a second.\<close>

fun display_init :: "nat \<Rightarrow> 'j client \<Rightarrow> 'j client" where
  "display_init 0 c = c"
| "display_init (Suc n) c =
     display_init n (send (send c (new_packet NextFrame)) (new_packet (DisplayImage [0x3f, 0x3f])))"

definition initialize_robot :: "'j client \<Rightarrow> 'j client" where
  "initialize_robot c =
     (let c1 = send c (new_packet (UnknownCommand 0x25 []));
          c2 = send c1 (new_packet (UnknownCommand 0x4b [0xc4, 0xb6, 0x39, 0x00, 0x00, 0x00, 0xa0, 0xc1]));
          c3 = send c2 (new_packet (UnknownCommand 0x9f []));
          c4 = display_init 7 c3;
          c5 = c4\<lparr>clock := clock c4 + 1000000\<rparr>
      in dispatch_event EvtRobotReady c5)"

text \<open>
  \<^verbatim>\<open>Client._on_firmware_signature\<close>. \<^verbatim>\<open>json.loads\<close> is the parameter \<open>loads\<close>: it
  returns a value, or \<open>None\<close> where \<^verbatim>\<open>json.loads\<close> raises \<^verbatim>\<open>JSONDecodeError\<close>.
\<close>

definition on_firmware_signature ::
  "(string \<Rightarrow> 'j option) \<Rightarrow> 'j client \<Rightarrow> string \<Rightarrow> 'j client outcome" where
  "on_firmware_signature loads c signature =
     (case loads signature of
        None \<Rightarrow> Raised JSONDecodeError c
      | Some j \<Rightarrow>
          Returned (dispatch_event EvtRobotFound (initialize_robot (c\<lparr>robot_fw_sig := Some j\<rparr>))))"

text \<open>
  \<^verbatim>\<open>self.dispatch(pkt.__class__, self, pkt)\<close> with the handlers \<^verbatim>\<open>Client.start\<close>
  subscribes: \<^verbatim>\<open>Connect\<close> to \<^verbatim>\<open>_on_connect\<close>, \<^verbatim>\<open>FirmwareSignature\<close> to
  \<^verbatim>\<open>_on_firmware_signature\<close>, \<^verbatim>\<open>Ping\<close> to \<^verbatim>\<open>_on_ping\<close>.
\<close>

definition dispatch_packet ::
  "(string \<Rightarrow> 'j option) \<Rightarrow> 'j client \<Rightarrow> packet option \<Rightarrow> 'j client outcome" where
  "dispatch_packet loads c item =
     (let c1 = dispatch_event (PacketEvt item) c
      in case item of
           None \<Rightarrow> Returned c1
         | Some pkt \<Rightarrow>
             (case body pkt of
                Connect \<Rightarrow> Returned (on_connect c1)
              | FirmwareSignature signature \<Rightarrow> on_firmware_signature loads c1 signature
              | Ping _ _ _ \<Rightarrow> Returned (on_ping c1)
              | _ \<Rightarrow> Returned c1))"

text \<open>
  The body of the loop of \<^verbatim>\<open>Client.run\<close>, in its three parts: take a packet from the
  receive queue and account for its acknowledgement (an empty queue is the \<^verbatim>\<open>Empty\<close>
  timeout); send a ping when one is due, \<open>now\<close> being the time read there; dispatch.
  The result is \<open>None\<close> when \<^verbatim>\<open>SendThread.ack\<close> does not return.
\<close>

definition run_receive :: "'j client \<Rightarrow> (packet option \<times> 'j client) option" where
  "run_receive c =
     (case rt_queue (recv_thread c) of
        [] \<Rightarrow> Some (None, c)
      | pkt # rest \<Rightarrow>
          (let c1 = c\<lparr>recv_thread := (recv_thread c)\<lparr>rt_queue := rest\<rparr>\<rparr>
           in case st_ack (send_thread c1) (ack pkt) of
                None \<Rightarrow> None
              | Some st1 \<Rightarrow>
                  Some (Some pkt,
                        c1\<lparr>send_thread := (if \<not> is_oob pkt then set_last_ack st1 (seq pkt) else st1)\<rparr>)))"

definition run_keepalive :: "'j client \<Rightarrow> timestamp \<Rightarrow> 'j client" where
  "run_keepalive c now =
     (let c1 = c\<lparr>clock := now\<rparr>
      in if state c1 = CONNECTED
         then (if now - send_last c1 > PING_INTERVAL then send_ping c1 else c1)
         else c1)"

definition run_step ::
  "(string \<Rightarrow> 'j option) \<Rightarrow> 'j client \<Rightarrow> timestamp \<Rightarrow> 'j client outcome option" where
  "run_step loads c now =
     (case run_receive c of
        None \<Rightarrow> None
      | Some (item, c1) \<Rightarrow> Some (dispatch_packet loads (run_keepalive c1 now) item))"

section \<open>Notions the properties are stated with\<close>






text \<open>
  A receive loop with a reset window, with the defaults of \<^verbatim>\<open>ReceiveThread.__init__\<close>
  (sequence numbers of 16 bits, 256 slots), and five frames: the packet with sequence 2
  comes first, then a ping, then the packet with sequence 1 twice, then the packet with
  sequence 2 again.
\<close>

definition rt_example :: receive_thread where
  "rt_example = \<lparr>sender_address = Some (''172.31.1.1'', 5551),
     rt_window = \<lparr>expected_seq = 1, capacity = 256, seq_bits = 16, buffer = Map.empty\<rparr>,
     rt_queue = []\<rparr>"


text \<open>
  A send loop whose window has wrapped: the packets with the sequences 65535, 0, 1 and 2
  are sent and not yet acknowledged.
\<close>

definition sw_wrap_example :: send_window where
  "sw_wrap_example =
     \<lparr>expected_seq = 65535, capacity = 256, seq_bits = 16,
      buffer = [65535 \<mapsto> new_packet NextFrame, 0 \<mapsto> new_packet (DisplayImage [0x3f, 0x3f]),
                1 \<mapsto> new_packet NextFrame, 2 \<mapsto> new_packet (DisplayImage [0x3f, 0x3f])],
      next_seq = 3\<rparr>"

definition st_wrap_example :: send_thread where
  "st_wrap_example =
     \<lparr>st_window = sw_wrap_example, st_queue = [], last_ack = 1, last_send_timestamp = None\<rparr>"

text \<open>
  A client in the middle of a session: the receive loop has delivered the packet with
  sequence 1 and buffers the one with sequence 3; the send loop has one packet sent and
  not yet acknowledged.
\<close>

definition client_example :: "(string \<times> string) list client" where
  "client_example =
     \<lparr>robot_addr = (''172.31.1.1'', 5551),
      robot_fw_sig = None,
      state = CONNECTED,
      sock = [Frame RESET 1 1 0 [], Frame ENGINE 1 1 1 [new_packet NextFrame]],
      recv_thread =
        \<lparr>sender_address = Some (''172.31.1.1'', 5551),
         rt_window = \<lparr>expected_seq = 2, capacity = 256, seq_bits = 16,
                      buffer = [3 \<mapsto> \<lparr>body = NextFrame, seq = 3, ack = 1\<rparr>]\<rparr>,
         rt_queue = []\<rparr>,
      send_thread =
        \<lparr>st_window = \<lparr>expected_seq = 1, capacity = 256, seq_bits = 16,
                      buffer = [1 \<mapsto> new_packet NextFrame], next_seq = 2\<rparr>,
         st_queue = [], last_ack = 1, last_send_timestamp = Some 1000\<rparr>,
      send_last = 1000,
      clock = 2000,
      dispatched = []\<rparr>"

text \<open>
  A stand-in for the part of the decoder the spec leaves open: it takes whatever follows
  a header for an \<open>ENGINE\<close> frame with one packet of sequence 1.
\<close>

definition decode_rest_example :: "byte list \<Rightarrow> error + frame" where
  "decode_rest_example raw = Inr (Frame ENGINE 1 1 0 [\<lparr>body = Connect, seq = 1, ack = 0\<rparr>])"

text \<open>
  A send loop with a ping and a command in its queue, in a session that has assigned
  the sequences up to 41 and has received the packet with sequence 7.
\<close>

definition st_example :: send_thread where
  "st_example =
     \<lparr>st_window = \<lparr>expected_seq = 40, capacity = 256, seq_bits = 16,
                   buffer = [40 \<mapsto> new_packet NextFrame, 41 \<mapsto> new_packet NextFrame],
                   next_seq = 42\<rparr>,
      st_queue = [new_packet (Ping 0 1 0), new_packet (UnknownCommand 0x25 [])],
      last_ack = 7, last_send_timestamp = Some 1000\<rparr>"

text \<open>
  \<open>count_pings\<close> counts the pings in a queue. \<open>init_packets\<close> are the packets
  \<^verbatim>\<open>_initialize_robot\<close> sends, in its order.
\<close>

definition count_pings :: "packet list \<Rightarrow> nat" where
  "count_pings q = length (filter isinstance_Ping q)"

definition init_packets :: "packet list" where
  "init_packets =
     map new_packet
       ([UnknownCommand 0x25 [],
         UnknownCommand 0x4b [0xc4, 0xb6, 0x39, 0x00, 0x00, 0x00, 0xa0, 0xc1],
         UnknownCommand 0x9f []]
        @ concat (replicate 7 [NextFrame, DisplayImage [0x3f, 0x3f]]))"

text \<open>
  A stand-in for \<^verbatim>\<open>json.loads\<close> that agrees with it on the two texts used below: the
  text \<^verbatim>\<open>{}\<close> is the empty object, and the empty text does not parse.
\<close>

definition loads_example :: "string \<Rightarrow> (string \<times> string) list option" where
  "loads_example s = (if s = ''{}'' then Some [] else None)"

text \<open>The client of the example with a packet in the receive queue that acknowledges
  sequence 1.\<close>

definition client_rx_example :: "packet \<Rightarrow> (string \<times> string) list client" where
  "client_rx_example pkt =
     client_example\<lparr>recv_thread := (recv_thread client_example)\<lparr>rt_queue := [pkt]\<rparr>\<rparr>"

section \<open>Properties of the receive loop\<close>














section \<open>Properties of \<^verbatim>\<open>SendThread.ack\<close>\<close>

lemma ack_loop_stops: "\<not> expected_seq w \<le> s \<Longrightarrow> ack_loop w s = Some w"
  by (subst ack_loop.simps) simp

lemma st_ack_stale: "sw_is_out_of_order (st_window st) s \<Longrightarrow> st_ack st s = Some st"
  by (simp add: st_ack_def)

text \<open>
  The guard \<^verbatim>\<open>expected_seq <= seq\<close> holds for every expected sequence when \<^verbatim>\<open>seq\<close>
  is the largest sequence number, and \<^verbatim>\<open>pop\<close> wraps the expected sequence around:
  on such an acknowledgement the loop, once entered, does not return.
\<close>

lemma ack_loop_returns_not_top:
  assumes "ack_loop w s = Some y"
  shows "\<not> (s = 2 ^ seq_bits w - 1 \<and> expected_seq w \<le> s)"
  using assms
proof (induction rule: ack_loop.raw_induct[rotated, consumes 1])
  case (1 f w s y)
  show ?case
  proof
    assume a: "s = 2 ^ seq_bits w - 1 \<and> expected_seq w \<le> s"
    then have call: "f (sw_pop w) s = Some y" using 1(2) by simp
    have "seq_bits (sw_pop w) = seq_bits w" by (simp add: sw_pop_def)
    moreover have "expected_seq (sw_pop w) \<le> 2 ^ seq_bits w - 1"
    proof -
      have "(expected_seq w + 1) mod 2 ^ seq_bits w < (2 ^ seq_bits w :: int)" by simp
      then show ?thesis by (simp add: sw_pop_def modulus_def)
    qed
    ultimately have "s = 2 ^ seq_bits (sw_pop w) - 1 \<and> expected_seq (sw_pop w) \<le> s"
      using a by simp
    with 1(1)[OF call] show False by simp
  qed
qed

lemma ack_loop_top_diverges:
  "expected_seq w \<le> 2 ^ seq_bits w - 1 \<Longrightarrow> ack_loop w (2 ^ seq_bits w - 1) = None"
  using ack_loop_returns_not_top [of w "2 ^ seq_bits w - 1"]
  by (cases "ack_loop w (2 ^ seq_bits w - 1)") auto

text \<open>
  Claim C2, at the input the claim itself gives: the expected sequence is 65535, the
  packets 65535, 0, 1 and 2 are buffered, and the acknowledgement is 2. The window
  does not take 2 for a stale acknowledgement, the guard \<^verbatim>\<open>65535 <= 2\<close> of the loop is
  false at once, and \<^verbatim>\<open>SendThread.ack\<close> returns with the send loop as it was: the four
  packets are still buffered.
\<close>

theorem ack_wraparound_acknowledges_nothing:
  "\<not> sw_is_out_of_order (st_window st_wrap_example) 2
   \<and> st_ack st_wrap_example 2 = Some st_wrap_example
   \<and> dom (buffer (st_window st_wrap_example)) = {65535, 0, 1, 2}"
proof -
  have o: "\<not> sw_is_out_of_order (st_window st_wrap_example) 2"
    by (simp add: st_wrap_example_def sw_wrap_example_def sw_is_out_of_order_def is_behind_def
        forward_distance_def modulus_def)
  have l: "ack_loop (st_window st_wrap_example) 2 = Some (st_window st_wrap_example)"
    by (rule ack_loop_stops) (simp add: st_wrap_example_def sw_wrap_example_def)
  have d: "dom (buffer (st_window st_wrap_example)) = {65535, 0, 1, 2}"
    by (auto simp: st_wrap_example_def sw_wrap_example_def)
  show ?thesis using o l d by (simp add: st_ack_def)
qed

section \<open>Properties of the client\<close>

lemma connect_fields:
  "state (connect c r) = CONNECTING"
  "send_thread (connect c r) = st_reset (send_thread c)"
  "sock (connect c r) = sock c @ [Frame RESET 1 1 0 []]"
  "recv_thread (connect c r) = recv_thread c"
  by (cases r; simp add: connect_def Let_def)+

text \<open>
  Claim C3, at a client that connects again in the middle of a session. The state
  becomes \<open>CONNECTING\<close>, the send loop is reset and one \<open>RESET\<close> frame with
  \<open>first_seq = 1\<close>, \<open>seq = 1\<close>, \<open>ack = 0\<close> and no packet goes to the socket; but
  \<^verbatim>\<open>connect\<close> never calls \<^verbatim>\<open>self.recv_thread.reset()\<close>: the receive loop is as it
  was, its window still expects sequence 2 and still buffers a packet, where a reset
  window expects sequence 1 and is empty.
\<close>

theorem connect_leaves_receive_window:
  "state (connect client_example Sent) = CONNECTING
   \<and> st_window (send_thread (connect client_example Sent))
       = sw_reset (st_window (send_thread client_example))
   \<and> sock (connect client_example Sent) = sock client_example @ [Frame RESET 1 1 0 []]
   \<and> recv_thread (connect client_example Sent) = recv_thread client_example
   \<and> expected_seq (rt_window (recv_thread (connect client_example Sent))) = 2
   \<and> dom (buffer (rt_window (recv_thread (connect client_example Sent)))) = {3}
   \<and> expected_seq (rt_window (rt_reset (recv_thread client_example))) = 1
   \<and> dom (buffer (rt_window (rt_reset (recv_thread client_example)))) = {}"
  by (simp add: connect_def Let_def st_reset_def client_example_def rt_reset_def rw_reset_def)

text \<open>
  Claim C4 as stated fails: the empty datagram is shorter than the header, so the
  decoder of the spec fails with \<open>MalformedFrame\<close> whatever decodes the rest, and the
  round of the loop raises that error. The receive loop is left as it was.
\<close>

theorem receive_step_malformed_raises:
  "rt_run_step (Frame_from_bytes decode_rest_example) rt_example
     (Datagram [] (''172.31.1.1'', 5551)) = Raised MalformedFrame rt_example"
  by (simp add: rt_run_step_def Frame_from_bytes_def header_size_def rt_example_def)

text \<open>
  Claim C4, amended. A round of the receive loop returns without raising when
  \<^verbatim>\<open>select\<close> times out, when \<^verbatim>\<open>recvfrom\<close> is interrupted, when the datagram comes
  from another sender than the configured one, and when \<^verbatim>\<open>Frame.from_bytes\<close> decodes
  the datagram: then the packets of the frame are handled. When
  \<^verbatim>\<open>Frame.from_bytes\<close> raises, the round raises the same error and nothing has been
  handled: the loop has no handler for it.
\<close>

theorem receive_step_outcome:
  "rt_run_step from_bytes rt SelectTimeout = Returned rt
   \<and> rt_run_step from_bytes rt RecvInterrupted = Returned rt
   \<and> (sender_address rt \<noteq> None \<and> sender_address rt \<noteq> Some addr
        \<longrightarrow> rt_run_step from_bytes rt (Datagram raw addr) = Returned rt)
   \<and> (sender_address rt = None \<or> sender_address rt = Some addr
        \<longrightarrow> (\<forall>f. from_bytes raw = Inr f
               \<longrightarrow> rt_run_step from_bytes rt (Datagram raw addr) = Returned (handle_frame rt f))
          \<and> (\<forall>e. from_bytes raw = Inl e
               \<longrightarrow> rt_run_step from_bytes rt (Datagram raw addr) = Raised e rt))"
  by (auto simp: rt_run_step_def)

theorem receive_step_outcome_witness:
  "sender_address rt_example = Some (''172.31.1.1'', 5551)
   \<and> Frame_from_bytes decode_rest_example [4, 1, 0, 1, 0, 0, 0, 2]
       = Inr (Frame ENGINE 1 1 0 [\<lparr>body = Connect, seq = 1, ack = 0\<rparr>])
   \<and> rt_run_step (Frame_from_bytes decode_rest_example) rt_example
        (Datagram [4, 1, 0, 1, 0, 0, 0, 2] (''172.31.1.1'', 5551))
       = Returned (handle_frame rt_example (Frame ENGINE 1 1 0 [\<lparr>body = Connect, seq = 1, ack = 0\<rparr>]))
   \<and> rt_queue (handle_frame rt_example (Frame ENGINE 1 1 0 [\<lparr>body = Connect, seq = 1, ack = 0\<rparr>]))
       = [\<lparr>body = Connect, seq = 1, ack = 0\<rparr>]
   \<and> Frame_from_bytes decode_rest_example [4, 1] = Inl MalformedFrame
   \<and> rt_run_step (Frame_from_bytes decode_rest_example) rt_example
        (Datagram [4, 1] (''172.31.1.1'', 5551))
       = Raised MalformedFrame rt_example"
proof -
  let ?a = "(''172.31.1.1'', 5551 :: nat)"
  let ?f = "Frame ENGINE 1 1 0 [\<lparr>body = Connect, seq = 1, ack = 0\<rparr>]"
  have a: "sender_address rt_example = Some ?a" by (simp add: rt_example_def)
  have g: "Frame_from_bytes decode_rest_example [4, 1, 0, 1, 0, 0, 0, 2] = Inr ?f"
    by (simp add: Frame_from_bytes_def header_size_def decode_rest_example_def)
  have b: "Frame_from_bytes decode_rest_example [4, 1] = Inl MalformedFrame"
    by (simp add: Frame_from_bytes_def header_size_def)
  have q: "rt_queue (handle_frame rt_example ?f) = [\<lparr>body = Connect, seq = 1, ack = 0\<rparr>]"
    by (simp add: rt_example_def handle_frame_def handle_pkt_def deliver_def
        rw_is_out_of_order_def rw_exists_def rw_put_def rw_is_expected_def
        is_behind_def forward_distance_def modulus_def deliver_sequence.simps rw_get_def)
  note T1 = receive_step_outcome [of "Frame_from_bytes decode_rest_example" rt_example ?a
      "[4, 1, 0, 1, 0, 0, 0, 2]"]
  note T2 = receive_step_outcome [of "Frame_from_bytes decode_rest_example" rt_example ?a "[4, 1]"]
  from T1 a g have r1: "rt_run_step (Frame_from_bytes decode_rest_example) rt_example
        (Datagram [4, 1, 0, 1, 0, 0, 0, 2] ?a) = Returned (handle_frame rt_example ?f)"
    by blast
  from T2 a b have r2: "rt_run_step (Frame_from_bytes decode_rest_example) rt_example
        (Datagram [4, 1] ?a) = Raised MalformedFrame rt_example"
    by blast
  show ?thesis using a g r1 q b r2 by (intro conjI)
qed

section \<open>Properties of the send loop\<close>

lemma construct_frame_ping:
  "isinstance_Ping pkt \<Longrightarrow> construct_frame st pkt = (Frame PING 0 0 (last_ack st) [pkt], st)"
  by (simp add: construct_frame_def)

lemma construct_frame_other:
  "\<not> isinstance_Ping pkt \<Longrightarrow>
   construct_frame st pkt =
     (Frame ENGINE (fst (sw_put (st_window st) pkt)) (fst (sw_put (st_window st) pkt)) (last_ack st) [pkt],
      st\<lparr>st_window := snd (sw_put (st_window st) pkt)\<rparr>)"
  by (simp add: construct_frame_def split: prod.splits)

text \<open>
  Claim C5. Let the send loop take \<open>pkt\<close> from its queue. If \<open>pkt\<close> is a \<open>Ping\<close>,
  the loop hands to the socket the frame of type \<open>PING\<close> with \<open>first_seq = 0\<close>,
  \<open>seq = 0\<close>, the current \<open>last_ack\<close> and \<open>pkt\<close> alone, and the window is as it was.
  Otherwise \<^verbatim>\<open>SendWindow.put\<close> takes \<open>pkt\<close> and returns its sequence, which is the
  next sequence of the window, and the loop hands to the socket the frame of type
  \<open>ENGINE\<close> with that sequence as \<open>first_seq\<close> and as \<open>seq\<close>, the current
  \<open>last_ack\<close> and \<open>pkt\<close> alone. This holds whether \<^verbatim>\<open>sendto\<close> returns or is
  interrupted; \<open>last_ack\<close> is not changed.
\<close>

theorem send_step_frame:
  assumes "st_queue st = pkt # rest"
  shows "(isinstance_Ping pkt \<longrightarrow>
            snd (st_run_step st sk r now) = sk @ [Frame PING 0 0 (last_ack st) [pkt]]
            \<and> st_window (fst (st_run_step st sk r now)) = st_window st)
       \<and> (\<not> isinstance_Ping pkt \<longrightarrow>
            snd (st_run_step st sk r now)
              = sk @ [Frame ENGINE (fst (sw_put (st_window st) pkt))
                          (fst (sw_put (st_window st) pkt)) (last_ack st) [pkt]]
            \<and> fst (sw_put (st_window st) pkt) = next_seq (st_window st)
            \<and> st_window (fst (st_run_step st sk r now)) = snd (sw_put (st_window st) pkt))
       \<and> st_queue (fst (st_run_step st sk r now)) = rest
       \<and> last_ack (fst (st_run_step st sk r now)) = last_ack st"
proof (cases "isinstance_Ping pkt")
  case True
  then show ?thesis using assms
    by (cases r) (simp_all add: st_run_step_def construct_frame_ping del: isinstance_Ping.simps)
next
  case False
  have "fst (sw_put (st_window st) pkt) = next_seq (st_window st)" by (simp add: sw_put_def)
  then show ?thesis using assms False
    by (cases r) (simp_all add: st_run_step_def construct_frame_other del: isinstance_Ping.simps)
qed

theorem send_step_frame_witness:
  "st_queue st_example = new_packet (Ping 0 1 0) # [new_packet (UnknownCommand 0x25 [])]
   \<and> isinstance_Ping (new_packet (Ping 0 1 0))
   \<and> snd (st_run_step st_example [] Sent 2000) = [Frame PING 0 0 7 [new_packet (Ping 0 1 0)]]
   \<and> st_window (fst (st_run_step st_example [] Sent 2000)) = st_window st_example
   \<and> st_queue (fst (st_run_step st_example [] Sent 2000)) = [new_packet (UnknownCommand 0x25 [])]
   \<and> \<not> isinstance_Ping (new_packet (UnknownCommand 0x25 []))
   \<and> snd (st_run_step (fst (st_run_step st_example [] Sent 2000))
             [Frame PING 0 0 7 [new_packet (Ping 0 1 0)]] Sent 3000)
       = [Frame PING 0 0 7 [new_packet (Ping 0 1 0)],
          Frame ENGINE 42 42 7 [new_packet (UnknownCommand 0x25 [])]]
   \<and> next_seq (st_window (fst (st_run_step (fst (st_run_step st_example [] Sent 2000))
             [Frame PING 0 0 7 [new_packet (Ping 0 1 0)]] Sent 3000))) = 43"
proof -
  let ?ping = "new_packet (Ping 0 1 0)" and ?cmd = "new_packet (UnknownCommand 0x25 [])"
  let ?st1 = "fst (st_run_step st_example [] Sent 2000)"
  have q: "st_queue st_example = ?ping # [?cmd]" by (simp add: st_example_def)
  have p: "isinstance_Ping ?ping" and c: "\<not> isinstance_Ping ?cmd" by (simp_all add: new_packet_def)
  have la: "last_ack st_example = 7" by (simp add: st_example_def)
  note T1 = send_step_frame [OF q, of "[]" Sent 2000]
  from T1 p la have s1: "snd (st_run_step st_example [] Sent 2000) = [Frame PING 0 0 7 [?ping]]"
    and w1: "st_window ?st1 = st_window st_example"
    and q1: "st_queue ?st1 = [?cmd]" and la1: "last_ack ?st1 = 7"
    by simp_all
  note T2 = send_step_frame [OF q1, of "[Frame PING 0 0 7 [?ping]]" Sent 3000]
  have n: "next_seq (st_window st_example) = 42" by (simp add: st_example_def)
  from T2 c la1 w1 n have s2: "snd (st_run_step ?st1 [Frame PING 0 0 7 [?ping]] Sent 3000)
       = [Frame PING 0 0 7 [?ping], Frame ENGINE 42 42 7 [?cmd]]"
    and w2: "st_window (fst (st_run_step ?st1 [Frame PING 0 0 7 [?ping]] Sent 3000))
       = snd (sw_put (st_window st_example) ?cmd)"
    by simp_all
  have n2: "next_seq (st_window (fst (st_run_step ?st1 [Frame PING 0 0 7 [?ping]] Sent 3000))) = 43"
    unfolding w2 by (simp add: sw_put_def st_example_def modulus_def)
  show ?thesis using q p s1 w1 q1 c s2 n2 by (intro conjI)
qed

lemma send_fields:
  "st_queue (send_thread (send c p)) = st_queue (send_thread c) @ [p]"
  "st_window (send_thread (send c p)) = st_window (send_thread c)"
  "last_ack (send_thread (send c p)) = last_ack (send_thread c)"
  "last_send_timestamp (send_thread (send c p)) = last_send_timestamp (send_thread c)"
  "send_last (send c p) = clock c"
  "state (send c p) = state c"
  "recv_thread (send c p) = recv_thread c"
  "sock (send c p) = sock c"
  "robot_fw_sig (send c p) = robot_fw_sig c"
  "dispatched (send c p) = dispatched c"
  "clock (send c p) = clock c"
  by (simp_all add: send_def st_send_def Let_def)

lemma display_init_fields:
  "st_queue (send_thread (display_init n c))
     = st_queue (send_thread c)
       @ map new_packet (concat (replicate n [NextFrame, DisplayImage [0x3f, 0x3f]]))"
  "st_window (send_thread (display_init n c)) = st_window (send_thread c)"
  "last_ack (send_thread (display_init n c)) = last_ack (send_thread c)"
  "state (display_init n c) = state c"
  "recv_thread (display_init n c) = recv_thread c"
  "robot_fw_sig (display_init n c) = robot_fw_sig c"
  "dispatched (display_init n c) = dispatched c"
  by (induction n arbitrary: c; simp add: send_fields)+

lemma initialize_robot_fields:
  "st_queue (send_thread (initialize_robot c)) = st_queue (send_thread c) @ init_packets"
  "st_window (send_thread (initialize_robot c)) = st_window (send_thread c)"
  "last_ack (send_thread (initialize_robot c)) = last_ack (send_thread c)"
  "state (initialize_robot c) = state c"
  "recv_thread (initialize_robot c) = recv_thread c"
  "robot_fw_sig (initialize_robot c) = robot_fw_sig c"
  "dispatched (initialize_robot c) = dispatched c @ [EvtRobotReady]"
  by (simp_all add: initialize_robot_def Let_def dispatch_event_def display_init_fields
      send_fields init_packets_def)

lemma count_pings_append: "count_pings (q @ q') = count_pings q + count_pings q'"
  by (simp add: count_pings_def)

lemma count_pings_init_packets: "count_pings init_packets = 0"
  by (simp add: count_pings_def init_packets_def new_packet_def)

lemma on_firmware_signature_fields:
  "st_window (send_thread (final (on_firmware_signature loads c s))) = st_window (send_thread c)"
  "last_ack (send_thread (final (on_firmware_signature loads c s))) = last_ack (send_thread c)"
  "recv_thread (final (on_firmware_signature loads c s)) = recv_thread c"
  "count_pings (st_queue (send_thread (final (on_firmware_signature loads c s))))
     = count_pings (st_queue (send_thread c))"
  by (simp_all add: on_firmware_signature_def dispatch_event_def initialize_robot_fields
      count_pings_append count_pings_init_packets split: option.splits)

lemma dispatch_packet_fields:
  "st_window (send_thread (final (dispatch_packet loads c item))) = st_window (send_thread c)"
  "last_ack (send_thread (final (dispatch_packet loads c item))) = last_ack (send_thread c)"
  "recv_thread (final (dispatch_packet loads c item)) = recv_thread c"
  "count_pings (st_queue (send_thread (final (dispatch_packet loads c item))))
     = count_pings (st_queue (send_thread c))"
  by (simp_all add: dispatch_packet_def Let_def on_connect_def on_ping_def dispatch_event_def
      on_firmware_signature_fields split: option.splits packet_body.splits)

lemma run_keepalive_fields:
  "st_window (send_thread (run_keepalive c now)) = st_window (send_thread c)"
  "last_ack (send_thread (run_keepalive c now)) = last_ack (send_thread c)"
  "recv_thread (run_keepalive c now) = recv_thread c"
  "st_queue (send_thread (run_keepalive c now))
     = st_queue (send_thread c)
       @ (if state c = CONNECTED \<and> now - send_last c > 50000 then [new_packet (Ping 0 1 0)] else [])"
  by (simp_all add: run_keepalive_def Let_def send_ping_def send_fields PING_INTERVAL_def)

lemma st_ack_fields:
  assumes "st_ack st s = Some st'"
  shows "last_ack st' = last_ack st" and "st_queue st' = st_queue st"
    and "last_send_timestamp st' = last_send_timestamp st"
  using assms by (auto simp: st_ack_def split: if_splits)

lemma run_receive_empty:
  "rt_queue (recv_thread c) = [] \<Longrightarrow> run_receive c = Some (None, c)"
  by (simp add: run_receive_def)

lemma run_receive_packet:
  assumes "rt_queue (recv_thread c) = pkt # rest" and "run_receive c = Some (item, c1)"
  shows "item = Some pkt"
    and "\<exists>st1. st_ack (send_thread c) (ack pkt) = Some st1
               \<and> send_thread c1 = (if \<not> is_oob pkt then set_last_ack st1 (seq pkt) else st1)"
    and "rt_queue (recv_thread c1) = rest"
    and "state c1 = state c" and "send_last c1 = send_last c"
  using assms by (auto simp: run_receive_def Let_def split: option.splits simp del: is_oob.simps)

lemma run_receive_same:
  assumes "run_receive c = Some (item, c1)"
  shows "state c1 = state c" and "send_last c1 = send_last c"
    and "st_queue (send_thread c1) = st_queue (send_thread c)"
  using assms
  by (auto simp: run_receive_def Let_def set_last_ack_def
      split: option.splits list.splits if_splits dest: st_ack_fields simp del: is_oob.simps)

lemma dispatch_packet_state:
  "state (final (dispatch_packet loads c item))
     = (case item of
          None \<Rightarrow> state c
        | Some pkt \<Rightarrow> if body pkt = Connect then CONNECTED else state c)"
  by (simp add: dispatch_packet_def Let_def on_connect_def on_ping_def dispatch_event_def
      on_firmware_signature_def initialize_robot_fields
      split: option.splits packet_body.splits)

lemma run_keepalive_state: "state (run_keepalive c now) = state c"
  by (simp add: run_keepalive_def Let_def send_ping_def send_fields)

text \<open>
  The state changes in \<^verbatim>\<open>_on_connect\<close> only: a round of \<^verbatim>\<open>Client.run\<close> leaves it
  as it is unless the packet it dispatches is a \<open>Connect\<close> packet.
\<close>

lemma run_step_state:
  assumes "run_step loads c now = Some r"
  shows "state (final r)
           = (case rt_queue (recv_thread c) of
                [] \<Rightarrow> state c
              | pkt # rest \<Rightarrow> if body pkt = Connect then CONNECTED else state c)"
proof -
  from assms obtain item c1 where rr: "run_receive c = Some (item, c1)"
    and r: "r = dispatch_packet loads (run_keepalive c1 now) item"
    by (auto simp: run_step_def split: option.splits)
  have s: "state c1 = state c" by (rule run_receive_same(1)[OF rr])
  show ?thesis
  proof (cases "rt_queue (recv_thread c)")
    case Nil
    then have "item = None" using rr by (simp add: run_receive_def)
    then show ?thesis by (simp add: r Nil dispatch_packet_state run_keepalive_state s)
  next
    case (Cons pkt rest)
    then have "item = Some pkt" using run_receive_packet(1)[OF Cons rr] by simp
    then show ?thesis by (simp add: r Cons dispatch_packet_state run_keepalive_state s)
  qed
qed

text \<open>
  Claim C7. In a round of \<^verbatim>\<open>Client.run\<close> that returns or raises, the send queue gains
  one ping when, at the start of the round, the state is \<open>CONNECTED\<close> and the time
  \<open>now\<close> read in the round is more than 50000 microseconds after \<open>send_last\<close>, and no
  ping otherwise: none in the states \<open>IDLE\<close> and \<open>CONNECTING\<close>, and none from the
  handlers the round dispatches to. \<open>send_last\<close> is the time at which \<^verbatim>\<open>Client.send\<close>
  was last called.
\<close>

theorem run_step_keepalive:
  assumes "run_step loads c now = Some r"
  shows "count_pings (st_queue (send_thread (final r)))
           = count_pings (st_queue (send_thread c))
             + (if state c = CONNECTED \<and> now - send_last c > 50000 then 1 else 0)
       \<and> (\<forall>d p. send_last (send d p) = clock d)"
proof -
  from assms obtain item c1 where rr: "run_receive c = Some (item, c1)"
    and r: "r = dispatch_packet loads (run_keepalive c1 now) item"
    by (auto simp: run_step_def split: option.splits)
  have "count_pings (st_queue (send_thread (final r)))
          = count_pings (st_queue (send_thread (run_keepalive c1 now)))"
    by (simp add: r dispatch_packet_fields)
  also have "\<dots> = count_pings (st_queue (send_thread c1))
          + (if state c1 = CONNECTED \<and> now - send_last c1 > 50000 then 1 else 0)"
    by (simp add: run_keepalive_fields count_pings_append)
       (simp add: count_pings_def new_packet_def)
  finally show ?thesis using run_receive_same[OF rr] by (simp add: send_fields)
qed

theorem run_step_keepalive_witness:
  "map_option (\<lambda>r. count_pings (st_queue (send_thread (final r))))
     (run_step loads_example (client_rx_example \<lparr>body = NextFrame, seq = 2, ack = 1\<rparr>) 60000) = Some 1
   \<and> map_option (\<lambda>r. count_pings (st_queue (send_thread (final r))))
     (run_step loads_example (client_rx_example \<lparr>body = NextFrame, seq = 2, ack = 1\<rparr>) 50000) = Some 0
   \<and> map_option (\<lambda>r. count_pings (st_queue (send_thread (final r))))
     (run_step loads_example (client_example\<lparr>state := CONNECTING\<rparr>) 60000) = Some 0"
proof -
  let ?p = "\<lparr>body = NextFrame, seq = 2, ack = 1\<rparr>"
  let ?c = "client_rx_example ?p"
  let ?d = "client_example\<lparr>state := CONNECTING\<rparr> :: (string \<times> string) list client"
  have a: "st_ack (send_thread ?c) 1 \<noteq> None"
    by (simp add: st_ack_def client_rx_example_def client_example_def sw_is_out_of_order_def
        is_behind_def forward_distance_def modulus_def ack_loop.simps sw_pop_def)
  then obtain r1 where r1: "run_step loads_example ?c 60000 = Some r1"
    by (auto simp: run_step_def run_receive_def Let_def client_rx_example_def)
  from a obtain r2 where r2: "run_step loads_example ?c 50000 = Some r2"
    by (auto simp: run_step_def run_receive_def Let_def client_rx_example_def)
  obtain r3 where r3: "run_step loads_example ?d 60000 = Some r3"
    by (simp add: run_step_def run_receive_def client_example_def)
  have c: "state ?c = CONNECTED" "send_last ?c = 1000" "count_pings (st_queue (send_thread ?c)) = 0"
    by (simp_all add: client_rx_example_def client_example_def count_pings_def)
  have d: "state ?d = CONNECTING" "count_pings (st_queue (send_thread client_example)) = 0"
    by (simp_all add: client_example_def count_pings_def)
  from run_step_keepalive [OF r1, THEN conjunct1]
  have "count_pings (st_queue (send_thread (final r1))) = 1" by (simp add: c)
  moreover from run_step_keepalive [OF r2, THEN conjunct1]
  have "count_pings (st_queue (send_thread (final r2))) = 0" by (simp add: c)
  moreover from run_step_keepalive [OF r3, THEN conjunct1]
  have "count_pings (st_queue (send_thread (final r3))) = 0" by (simp add: d)
  ultimately show ?thesis by (simp add: r1 r2 r3)
qed



text \<open>
  Claim C9. \<^verbatim>\<open>Client.disconnect\<close> leaves the state as it is. In the state
  \<open>CONNECTED\<close> it puts one \<open>Disconnect\<close> packet at the end of the send queue, and
  besides \<open>send_last\<close> nothing else changes; in any other state the client is
  unchanged.
\<close>

theorem disconnect_effect:
  "state (disconnect c) = state c
   \<and> (state c = CONNECTED \<longrightarrow>
        st_queue (send_thread (disconnect c)) = st_queue (send_thread c) @ [new_packet Disconnect]
        \<and> disconnect c
            = c\<lparr>send_last := clock c,
                 send_thread := (send_thread c)\<lparr>st_queue := st_queue (send_thread c) @ [new_packet Disconnect]\<rparr>\<rparr>)
   \<and> (state c \<noteq> CONNECTED \<longrightarrow> disconnect c = c)"
  by (simp add: disconnect_def send_def st_send_def Let_def)

theorem disconnect_effect_witness:
  "state client_example = CONNECTED
   \<and> state (disconnect client_example) = CONNECTED
   \<and> st_queue (send_thread (disconnect client_example)) = [new_packet Disconnect]
   \<and> state (client_example\<lparr>state := CONNECTING\<rparr>) \<noteq> CONNECTED
   \<and> disconnect (client_example\<lparr>state := CONNECTING\<rparr>) = client_example\<lparr>state := CONNECTING\<rparr>"
proof -
  have c: "state client_example = CONNECTED" "st_queue (send_thread client_example) = []"
    by (simp_all add: client_example_def)
  have d: "state (client_example\<lparr>state := CONNECTING\<rparr>) \<noteq> CONNECTED" by simp
  note T1 = disconnect_effect [of client_example]
  note T2 = disconnect_effect [of "client_example\<lparr>state := CONNECTING\<rparr>"]
  from T1 c have "state (disconnect client_example) = CONNECTED"
    and "st_queue (send_thread (disconnect client_example)) = [new_packet Disconnect]"
    by simp_all
  moreover from T2 d
  have "disconnect (client_example\<lparr>state := CONNECTING\<rparr>) = client_example\<lparr>state := CONNECTING\<rparr>"
    by blast
  ultimately show ?thesis using c d by (intro conjI)
qed

text \<open>
  Claim C10 as stated fails: a \<open>FirmwareSignature\<close> packet whose signature is not
  JSON (here the empty text) makes \<^verbatim>\<open>json.loads\<close> raise in
  \<^verbatim>\<open>_on_firmware_signature\<close> before anything else is done: nothing is stored, nothing
  is sent, and neither \<open>EvtRobotReady\<close> nor \<open>EvtRobotFound\<close> is dispatched.
\<close>

theorem firmware_signature_not_json_raises:
  "dispatch_packet loads_example client_example (Some \<lparr>body = FirmwareSignature [], seq = 2, ack = 1\<rparr>)
     = Raised JSONDecodeError
         (client_example\<lparr>dispatched := [PacketEvt (Some \<lparr>body = FirmwareSignature [], seq = 2, ack = 1\<rparr>)]\<rparr>)"
  by (simp add: dispatch_packet_def Let_def dispatch_event_def on_firmware_signature_def
      loads_example_def client_example_def)

text \<open>
  Claim C10, amended. When the run loop dispatches a \<open>FirmwareSignature\<close> packet
  whose signature \<^verbatim>\<open>json.loads\<close> parses, the dispatch returns; the parsed signature is
  stored; the packets of the initialization sequence are put on the send queue in their
  order; and after the dispatch of the packet itself the client dispatches
  \<open>EvtRobotReady\<close> and then \<open>EvtRobotFound\<close>, each once. The state and the windows
  are as before.
\<close>

theorem firmware_signature_events:
  assumes "body pkt = FirmwareSignature signature"
    and "loads signature = Some j"
  shows "dispatch_packet loads c (Some pkt) = Returned (final (dispatch_packet loads c (Some pkt)))
       \<and> robot_fw_sig (final (dispatch_packet loads c (Some pkt))) = Some j
       \<and> st_queue (send_thread (final (dispatch_packet loads c (Some pkt))))
           = st_queue (send_thread c) @ init_packets
       \<and> dispatched (final (dispatch_packet loads c (Some pkt)))
           = dispatched c @ [PacketEvt (Some pkt), EvtRobotReady, EvtRobotFound]
       \<and> state (final (dispatch_packet loads c (Some pkt))) = state c"
  using assms
  by (simp add: dispatch_packet_def Let_def on_firmware_signature_def dispatch_event_def
      initialize_robot_fields)

theorem firmware_signature_events_witness:
  "body \<lparr>body = FirmwareSignature ''{}'', seq = 2, ack = 1\<rparr> = FirmwareSignature ''{}''
   \<and> loads_example ''{}'' = Some []
   \<and> robot_fw_sig (final (dispatch_packet loads_example client_example
        (Some \<lparr>body = FirmwareSignature ''{}'', seq = 2, ack = 1\<rparr>))) = Some []
   \<and> dispatched (final (dispatch_packet loads_example client_example
        (Some \<lparr>body = FirmwareSignature ''{}'', seq = 2, ack = 1\<rparr>)))
       = [PacketEvt (Some \<lparr>body = FirmwareSignature ''{}'', seq = 2, ack = 1\<rparr>),
          EvtRobotReady, EvtRobotFound]
   \<and> length (st_queue (send_thread (final (dispatch_packet loads_example client_example
        (Some \<lparr>body = FirmwareSignature ''{}'', seq = 2, ack = 1\<rparr>))))) = 17"
proof -
  let ?p = "\<lparr>body = FirmwareSignature ''{}'', seq = 2, ack = 1\<rparr>"
  have b: "body ?p = FirmwareSignature ''{}''" by simp
  have l: "loads_example ''{}'' = Some []" by (simp add: loads_example_def)
  have c: "dispatched client_example = []" "st_queue (send_thread client_example) = []"
    by (simp_all add: client_example_def)
  have n: "length init_packets = 17" by (simp add: init_packets_def eval_nat_numeral)
  note T = firmware_signature_events [where pkt = ?p and signature = "''{}''"
      and loads = loads_example and j = "[]" and c = client_example, OF b l]
  from T c n show ?thesis using b l by simp
qed

end
